theory Spec2Isabelle
  imports Main
begin

section \<open>JavaScript values\<close>

text \<open>
  The messenger of \<^verbatim>\<open>IframeMessenger.js\<close> moves untyped JavaScript values between two
  windows. The values of the model are the ones the code distinguishes: \<^verbatim>\<open>undefined\<close>,
  \<^verbatim>\<open>null\<close>, booleans, numbers, strings, arrays, plain objects, native \<^verbatim>\<open>Error\<close>
  instances and instances of the class \<^verbatim>\<open>RequestError\<close>.

  \<^item> A number is given by the text JavaScript prints for it (\<^verbatim>\<open>42\<close>, \<^verbatim>\<open>-1.5\<close>,
    \<^verbatim>\<open>1e+21\<close>, \<^verbatim>\<open>NaN\<close>, \<^verbatim>\<open>Infinity\<close>; both zeros print as \<^verbatim>\<open>0\<close>): the code only
    ever tests a number for truthiness or turns it into text, and the printed text decides
    both.
  \<^item> No value is a function: the values are the data that messages carry.
  \<^item> A plain object is an association list from keys to values; a key is present when it
    occurs in the list, also when its value is \<^verbatim>\<open>undefined\<close>. The first binding of a
    key is the one read.
  \<^item> An \<^verbatim>\<open>Error\<close> carries its message. A \<^verbatim>\<open>RequestError\<close> carries the message (the
    constructor of \<^verbatim>\<open>Error\<close> stores it as a string), and the fields \<^verbatim>\<open>type\<close> and
    \<^verbatim>\<open>data\<close>, which the constructor stores as they are given.
\<close>

datatype jsval =
    VUndefined
  | VNull
  | VBool bool
  | VNum string
  | VStr string
  | VArr "jsval list"
  | VObj "(string \<times> jsval) list"
  | VError string
  | VRequestError string jsval jsval

text \<open>The operator \<^verbatim>\<open>typeof\<close>.\<close>

fun typeof :: "jsval \<Rightarrow> string" where
  "typeof VUndefined = ''undefined''"
| "typeof VNull = ''object''"
| "typeof (VBool b) = ''boolean''"
| "typeof (VNum n) = ''number''"
| "typeof (VStr s) = ''string''"
| "typeof (VArr xs) = ''object''"
| "typeof (VObj kvs) = ''object''"
| "typeof (VError m) = ''object''"
| "typeof (VRequestError m t d) = ''object''"

text \<open>\<^verbatim>\<open>v instanceof Error\<close>; \<^verbatim>\<open>RequestError\<close> extends \<^verbatim>\<open>Error\<close>.\<close>

fun instanceof_Error :: "jsval \<Rightarrow> bool" where
  "instanceof_Error (VError m) = True"
| "instanceof_Error (VRequestError m t d) = True"
| "instanceof_Error v = False"

fun instanceof_RequestError :: "jsval \<Rightarrow> bool" where
  "instanceof_RequestError (VRequestError m t d) = True"
| "instanceof_RequestError v = False"

text \<open>\<^verbatim>\<open>v != null\<close>: loose inequality with \<^verbatim>\<open>null\<close> fails for \<^verbatim>\<open>null\<close> and \<^verbatim>\<open>undefined\<close> only.\<close>

fun not_nullish :: "jsval \<Rightarrow> bool" where
  "not_nullish VUndefined = False"
| "not_nullish VNull = False"
| "not_nullish v = True"

text \<open>Truthiness, as tested by \<^verbatim>\<open>if (v)\<close> and \<^verbatim>\<open>!v\<close>.\<close>

fun truthy :: "jsval \<Rightarrow> bool" where
  "truthy VUndefined = False"
| "truthy VNull = False"
| "truthy (VBool b) = b"
| "truthy (VNum n) = (n \<noteq> ''0'' \<and> n \<noteq> ''NaN'')"
| "truthy (VStr s) = (s \<noteq> [])"
| "truthy v = True"

text \<open>
  The operator \<^verbatim>\<open>k in v\<close>. On a value that is not an object JavaScript raises a
  \<^verbatim>\<open>TypeError\<close>: that is the \<open>Inl\<close> branch. The keys the code asks for are
  \<^verbatim>\<open>id\<close>, \<^verbatim>\<open>action\<close>, \<^verbatim>\<open>type\<close>, \<^verbatim>\<open>message\<close> and \<^verbatim>\<open>data\<close>, and the model answers
  for keys of that kind: not for the indices and the \<^verbatim>\<open>length\<close> of an array, nor for the
  properties every object inherits (\<^verbatim>\<open>toString\<close>, \<^verbatim>\<open>constructor\<close> and the like). An
  error object has \<^verbatim>\<open>message\<close> (own or inherited), a \<^verbatim>\<open>RequestError\<close> has \<^verbatim>\<open>type\<close>
  and \<^verbatim>\<open>data\<close> as well.
\<close>

definition type_error :: jsval where
  "type_error = VError ''Cannot use 'in' operator to search for a key in a primitive''"

fun js_in :: "string \<Rightarrow> jsval \<Rightarrow> jsval + bool" where
  "js_in k (VObj kvs) = Inr (k \<in> set (map fst kvs))"
| "js_in k (VArr xs) = Inr False"
| "js_in k (VError m) = Inr (k = ''message'')"
| "js_in k (VRequestError m t d) = Inr (k = ''message'' \<or> k = ''type'' \<or> k = ''data'')"
| "js_in k v = Inl type_error"

text \<open>
  A property read \<^verbatim>\<open>v.k\<close>. A missing property reads as \<^verbatim>\<open>undefined\<close>. On \<^verbatim>\<open>null\<close> and
  \<^verbatim>\<open>undefined\<close> JavaScript raises; every read of the code sits behind a shape predicate or
  a \<^verbatim>\<open>typeof\<close> guard that only objects pass (lemmas \<open>isRequest_object\<close>,
  \<open>isResponse_object\<close>, \<open>isEvent_object\<close> below), so that branch is never taken.
\<close>

fun get_prop :: "jsval \<Rightarrow> string \<Rightarrow> jsval" where
  "get_prop (VObj kvs) k = (case map_of kvs k of None \<Rightarrow> VUndefined | Some v \<Rightarrow> v)"
| "get_prop (VError m) k = (if k = ''message'' then VStr m else VUndefined)"
| "get_prop (VRequestError m t d) k =
     (if k = ''message'' then VStr m
      else if k = ''type'' then t
      else if k = ''data'' then d
      else VUndefined)"
| "get_prop v k = VUndefined"

subsection \<open>Conversion to text and loose equality\<close>

text \<open>Joining texts with a separator, as \<^verbatim>\<open>Array.prototype.join\<close> does.\<close>

fun join :: "string \<Rightarrow> string list \<Rightarrow> string" where
  "join sep [] = []"
| "join sep [x] = x"
| "join sep (x # y # ys) = x @ sep @ join sep (y # ys)"

text \<open>
  The conversion of a value to text, which a template literal and the loose equality with
  a string apply; \<open>Inl\<close> is the \<^verbatim>\<open>TypeError\<close> that JavaScript raises when an object has
  no text.
  \<^item> A plain object is converted by its methods \<^verbatim>\<open>toString\<close> and \<^verbatim>\<open>valueOf\<close>. The
    inherited \<^verbatim>\<open>toString\<close> answers \<^verbatim>\<open>[object Object]\<close>. An own property \<^verbatim>\<open>toString\<close>
    hides it, and as no value is a function, it cannot be called; \<^verbatim>\<open>valueOf\<close>, inherited
    or own, gives no primitive value either, so the conversion raises. That holds in
    whichever order the two methods are tried.
  \<^item> An array is its elements converted in order and joined by commas, where
    \<^verbatim>\<open>undefined\<close> and \<^verbatim>\<open>null\<close> elements are empty; the first element that cannot be
    converted raises.
  \<^item> An error is its name, a colon and the message, or the name alone when the message is
    empty.
\<close>

definition primitive_error :: jsval where
  "primitive_error = VError ''Cannot convert object to primitive value''"

fun to_string :: "jsval \<Rightarrow> jsval + string"
  and elements_to_strings :: "jsval list \<Rightarrow> jsval + string list" where
  "to_string VUndefined = Inr ''undefined''"
| "to_string VNull = Inr ''null''"
| "to_string (VBool b) = Inr (if b then ''true'' else ''false'')"
| "to_string (VNum n) = Inr n"
| "to_string (VStr s) = Inr s"
| "to_string (VArr xs) =
     (case elements_to_strings xs of Inl e \<Rightarrow> Inl e | Inr ss \<Rightarrow> Inr (join '','' ss))"
| "to_string (VObj kvs) =
     (if ''toString'' \<in> set (map fst kvs) then Inl primitive_error
      else Inr ''[object Object]'')"
| "to_string (VError m) = Inr (if m = [] then ''Error'' else ''Error: '' @ m)"
| "to_string (VRequestError m t d) =
     Inr (if m = [] then ''RequestError'' else ''RequestError: '' @ m)"
| "elements_to_strings [] = Inr []"
| "elements_to_strings (x # xs) =
     (case (if x = VUndefined \<or> x = VNull then Inr [] else to_string x) of
        Inl e \<Rightarrow> Inl e
      | Inr s \<Rightarrow>
          (case elements_to_strings xs of Inl e \<Rightarrow> Inl e | Inr ss \<Rightarrow> Inr (s # ss)))"

text \<open>
  Strict equality \<^verbatim>\<open>v === s\<close> with a string \<open>s\<close>: the value is that very string.
\<close>

definition strict_eq_str :: "jsval \<Rightarrow> string \<Rightarrow> bool" where
  "strict_eq_str v s = (v = VStr s)"

text \<open>
  Loose equality \<^verbatim>\<open>v == s\<close> with a string \<open>s\<close> that is not the text of a number (the one
  use in the code compares with the constant \<^verbatim>\<open>"IFRAME-MESSAGE-RESPONSE"\<close>). A string is
  compared as it is. A number or a boolean is compared with the number that \<open>s\<close> denotes,
  which is \<^verbatim>\<open>NaN\<close>, so the answer is no. \<^verbatim>\<open>undefined\<close> and \<^verbatim>\<open>null\<close> equal no string.
  An object is converted to its text first, and the comparison raises when that raises.
\<close>

fun loose_eq_str :: "jsval \<Rightarrow> string \<Rightarrow> jsval + bool" where
  "loose_eq_str VUndefined s = Inr False"
| "loose_eq_str VNull s = Inr False"
| "loose_eq_str (VBool b) s = Inr False"
| "loose_eq_str (VNum n) s = Inr False"
| "loose_eq_str (VStr t) s = Inr (t = s)"
| "loose_eq_str v s = (case to_string v of Inl e \<Rightarrow> Inl e | Inr t \<Rightarrow> Inr (t = s))"

section \<open>The error codec\<close>

text \<open>
  \<^verbatim>\<open>parseErrorPayload\<close> returns the error to reject with, or throws the generic error
  (\<open>Inl\<close>). The console output is not part of the model.
\<close>

definition unknown_error :: jsval where
  "unknown_error = VError ''Ocorreu um erro desconhecido. Veja o console''"

text \<open>
  The conjunction \<^verbatim>\<open>a && b\<close> of two tests of which either may raise: \<open>b\<close> is only
  evaluated when \<open>a\<close> is true.
\<close>

definition and_also :: "jsval + bool \<Rightarrow> jsval + bool \<Rightarrow> jsval + bool" where
  "and_also a b = (case a of Inl e \<Rightarrow> Inl e | Inr x \<Rightarrow> (if x then b else Inr False))"

definition parseErrorPayload :: "jsval \<Rightarrow> jsval + jsval" where
  "parseErrorPayload payload =
     (if instanceof_Error payload then Inr payload
      else
        (case and_also (Inr (not_nullish payload))
               (and_also (Inr (typeof payload = ''object''))
               (and_also (js_in ''message'' payload)
               (and_also (Inr (typeof (get_prop payload ''message'') = ''string''))
               (and_also (js_in ''type'' payload)
               (and_also (Inr (typeof (get_prop payload ''type'') = ''string''))
                         (js_in ''data'' payload)))))) of
           Inl e \<Rightarrow> Inl e
         | Inr ok \<Rightarrow>
             (if ok then
                (case to_string (get_prop payload ''message'') of
                   Inl e \<Rightarrow> Inl e
                 | Inr m \<Rightarrow>
                     Inr (VRequestError m (get_prop payload ''type'')
                            (get_prop payload ''data'')))
              else Inl unknown_error)))"

fun toErrorPayload :: "jsval \<Rightarrow> jsval" where
  "toErrorPayload error =
     (if instanceof_RequestError error then
        VObj [(''message'', get_prop error ''message''), (''type'', get_prop error ''type''),
              (''data'', get_prop error ''data'')]
      else error)"

section \<open>The protocol layer\<close>

definition messageTypeRequest :: string where
  "messageTypeRequest = ''IFRAME-MESSAGE-REQUEST''"

definition messageTypeResponse :: string where
  "messageTypeResponse = ''IFRAME-MESSAGE-RESPONSE''"

definition messageTypeEvent :: string where
  "messageTypeEvent = ''IFRAME-MESSAGE-EVENT''"

definition isRequest :: "jsval \<Rightarrow> jsval + bool" where
  "isRequest data =
     and_also (Inr (typeof data = ''object''))
    (and_also (Inr (not_nullish data))
    (and_also (js_in ''id'' data)
    (and_also (js_in ''action'' data)
    (and_also (js_in ''type'' data)
              (Inr (strict_eq_str (get_prop data ''type'') messageTypeRequest))))))"

definition isResponse :: "jsval \<Rightarrow> jsval + bool" where
  "isResponse data =
     and_also (Inr (typeof data = ''object''))
    (and_also (Inr (not_nullish data))
    (and_also (js_in ''id'' data)
    (and_also (js_in ''type'' data)
              (loose_eq_str (get_prop data ''type'') messageTypeResponse))))"

definition isEvent :: "jsval \<Rightarrow> jsval + bool" where
  "isEvent data =
     and_also (Inr (typeof data = ''object''))
    (and_also (Inr (not_nullish data))
    (and_also (js_in ''action'' data)
    (and_also (js_in ''type'' data)
              (Inr (strict_eq_str (get_prop data ''type'') messageTypeEvent)))))"

section \<open>The messenger core\<close>

text \<open>
  A window is named by a number. A handler is a function of the payload; its value is the
  outcome once it has settled: \<open>Inr v\<close> when it returned (or its promise fulfilled with)
  \<open>v\<close>, \<open>Inl e\<close> when it threw (or its promise rejected with) \<open>e\<close>. For an event handler,
  which the code calls without awaiting, \<open>Inl e\<close> is a synchronous throw.

  The promise returned by \<^verbatim>\<open>#receiveRequestResponse\<close> is a \<open>promise\<close>; its listener is
  attached to the window as long as the promise is pending (\<^verbatim>\<open>finally\<close> detaches it once
  the promise has settled, before the next message is dispatched).
\<close>

type_synonym win = nat

type_synonym handler = "jsval \<Rightarrow> jsval + jsval"

datatype promise = Pending | Fulfilled jsval | Rejected jsval

text \<open>
  The state of one \<^verbatim>\<open>IframeMessenger\<close> and of the window it listens on:
  \<^item> \<open>debug\<close>, \<open>source\<close>, \<open>requestHandlers\<close>, \<open>eventHandlers\<close>: the fields of the
    class (the origin is the constant \<^verbatim>\<open>"*"\<close>). Console output is not part of the
    model, but the text a console call is given is computed, since computing it may raise;
  \<^item> \<open>calls\<close>: the promises created by \<^verbatim>\<open>#receiveRequestResponse\<close>, each with the id it
    waits for, in the order of their creation;
  \<^item> \<open>posted\<close>: the messages handed to \<^verbatim>\<open>this.source.postMessage\<close>, in order;
  \<^item> \<open>requestCalls\<close>, \<open>eventCalls\<close>: the handler invocations made so far, each with the
    action it was registered for and the payload it received;
  \<^item> \<open>uncaught\<close>: the exceptions that left a listener of the window.

  The transport is outside the code: a posted message is delivered to the listeners of the
  other window with the value it was posted with.
\<close>

record messenger =
  debug :: bool
  source :: win
  requestHandlers :: "string \<rightharpoonup> handler"
  eventHandlers :: "string \<rightharpoonup> handler"
  calls :: "(string \<times> promise) list"
  posted :: "jsval list"
  requestCalls :: "(string \<times> jsval) list"
  eventCalls :: "(string \<times> jsval) list"
  uncaught :: "jsval list"

definition IframeMessenger :: "win \<Rightarrow> messenger" where
  "IframeMessenger peer =
     \<lparr>debug = False, source = peer, requestHandlers = Map.empty, eventHandlers = Map.empty,
      calls = [], posted = [], requestCalls = [], eventCalls = [], uncaught = []\<rparr>"

text \<open>
  \<^verbatim>\<open>Map.prototype.get\<close> on a registry whose keys are strings (the documented type of an
  action): a key that is not a string finds nothing.
\<close>

fun registry_get :: "(string \<rightharpoonup> handler) \<Rightarrow> jsval \<Rightarrow> (string \<times> handler) option" where
  "registry_get reg (VStr a) = (case reg a of None \<Rightarrow> None | Some h \<Rightarrow> Some (a, h))"
| "registry_get reg v = None"

definition registerRequestHandler :: "messenger \<Rightarrow> string \<Rightarrow> handler \<Rightarrow> messenger" where
  "registerRequestHandler m action h = m\<lparr>requestHandlers := (requestHandlers m)(action \<mapsto> h)\<rparr>"

definition registerEventsHandler :: "messenger \<Rightarrow> string \<Rightarrow> handler \<Rightarrow> messenger" where
  "registerEventsHandler m action h = m\<lparr>eventHandlers := (eventHandlers m)(action \<mapsto> h)\<rparr>"

definition postMessage :: "messenger \<Rightarrow> jsval \<Rightarrow> messenger" where
  "postMessage m message = m\<lparr>posted := posted m @ [message]\<rparr>"

text \<open>
  \<^verbatim>\<open>sendRequest\<close>, with the id \<open>uuid\<close> that \<^verbatim>\<open>crypto.randomUUID()\<close> returned as an argument. The
  promise for the response is created first and is the last entry of \<open>calls\<close>, at position
  \<open>length (calls m)\<close>; the awaitable of \<^verbatim>\<open>sendRequest\<close> settles as that promise does.
\<close>

definition sendRequest :: "messenger \<Rightarrow> string \<Rightarrow> string \<Rightarrow> jsval \<Rightarrow> messenger" where
  "sendRequest m uuid action payload =
     postMessage (m\<lparr>calls := calls m @ [(uuid, Pending)]\<rparr>)
       (VObj [(''id'', VStr uuid), (''type'', VStr messageTypeRequest),
              (''action'', VStr action), (''payload'', payload)])"

definition sendEvent :: "messenger \<Rightarrow> string \<Rightarrow> jsval \<Rightarrow> messenger" where
  "sendEvent m action payload =
     postMessage m
       (VObj [(''type'', VStr messageTypeEvent), (''action'', VStr action),
              (''payload'', payload)])"

definition awaitable :: "messenger \<Rightarrow> nat \<Rightarrow> promise option" where
  "awaitable m k = (if k < length (calls m) then Some (snd (calls m ! k)) else None)"

text \<open>
  The listener that \<^verbatim>\<open>#receiveRequestResponse\<close> attaches for the id \<open>uuid\<close>, run on the data
  of a message event while its promise is \<open>p\<close>: the new state of the promise and the
  exception that left the listener, if any. The source of the event is not looked at.
\<close>

definition callback :: "string \<Rightarrow> jsval \<Rightarrow> promise \<Rightarrow> promise \<times> jsval option" where
  "callback uuid data p =
     (if p \<noteq> Pending then (p, None)
      else
        (case and_also (isResponse data) (Inr (strict_eq_str (get_prop data ''id'') uuid)) of
           Inl e \<Rightarrow> (p, Some e)
         | Inr hit \<Rightarrow>
             (if hit then
                (if truthy (get_prop data ''error'') then
                   (case parseErrorPayload (get_prop data ''payload'') of
                      Inl e \<Rightarrow> (p, Some e)
                    | Inr err \<Rightarrow> (Rejected err, None))
                 else (Fulfilled (get_prop data ''payload''), None))
              else (p, None))))"

text \<open>
  \<^verbatim>\<open>#handleEvent\<close>: the new state and the exception that left it, if any. Without a
  handler, the debug mode builds a console line from the action with a template literal.
\<close>

definition handleEvent :: "messenger \<Rightarrow> jsval \<Rightarrow> messenger \<times> jsval option" where
  "handleEvent m data =
     (case registry_get (eventHandlers m) (get_prop data ''action'') of
        None \<Rightarrow>
          (if debug m then
             (case to_string (get_prop data ''action'') of
                Inl e \<Rightarrow> (m, Some e)
              | Inr line \<Rightarrow> (m, None))
           else (m, None))
      | Some (a, h) \<Rightarrow>
          (let m1 = m\<lparr>eventCalls := eventCalls m @ [(a, get_prop data ''payload'')]\<rparr>
           in (case h (get_prop data ''payload'') of
                 Inl e \<Rightarrow> (m1, Some e)
               | Inr r \<Rightarrow> (m1, None))))"

text \<open>
  \<^verbatim>\<open>#handleRequest\<close>: the new state and the exception that left it, if any. \<open>reply\<close> is
  the local function of that name; the success branch calls it with one argument, so its
  parameter \<^verbatim>\<open>error\<close> is \<^verbatim>\<open>undefined\<close> there.

  Without a handler, the error to reply with is built first, its message by a template
  literal over the action: when the action has no text, that raises before \<open>reply\<close> is
  called, and the exception leaves \<^verbatim>\<open>#handleRequest\<close>.

  With a handler, the promise chain catches whatever the handler raises. The handler is
  invoked once and the reply is posted when the chain has settled; the model takes the two
  as one step, with the outcome of the handler as the function \<open>h\<close> gives it, and leaves
  out the messages that may be dispatched while an asynchronous handler is suspended. The
  console line of the failure branch is built from the action, which is a string there (it
  is a key of the registry).
\<close>

definition reply :: "messenger \<Rightarrow> jsval \<Rightarrow> jsval \<Rightarrow> jsval \<Rightarrow> messenger" where
  "reply m request payload error =
     postMessage m
       (VObj [(''id'', get_prop request ''id''), (''type'', VStr messageTypeResponse),
              (''payload'', payload), (''error'', error)])"

definition unknown_action :: "jsval \<Rightarrow> jsval + jsval" where
  "unknown_action action =
     (case to_string action of
        Inl e \<Rightarrow> Inl e
      | Inr text \<Rightarrow>
          Inr (VError (''A'' @ [char_of (0xE7::nat), char_of (0xE3::nat)]
                       @ ''o desconhecida: '' @ text)))"

definition handleRequest :: "messenger \<Rightarrow> jsval \<Rightarrow> messenger \<times> jsval option" where
  "handleRequest m request =
     (case registry_get (requestHandlers m) (get_prop request ''action'') of
        None \<Rightarrow>
          (case unknown_action (get_prop request ''action'') of
             Inl e \<Rightarrow> (m, Some e)
           | Inr err \<Rightarrow> (reply m request err (VBool True), None))
      | Some (a, h) \<Rightarrow>
          (let m1 = m\<lparr>requestCalls := requestCalls m @ [(a, get_prop request ''payload'')]\<rparr>
           in (case h (get_prop request ''payload'') of
                 Inr response \<Rightarrow> (reply m1 request response VUndefined, None)
               | Inl err \<Rightarrow> (reply m1 request (toErrorPayload err) (VBool True), None))))"

text \<open>
  \<^verbatim>\<open>#messageHandler\<close>, run on a message event with source \<open>src\<close> (\<open>None\<close> is
  \<^verbatim>\<open>null\<close>) and data \<open>data\<close>: the new state and the exception that left the listener, if
  any. An exception raised while the event branch runs skips the request branch. In the
  debug mode the console line is built from \<^verbatim>\<open>message.origin\<close>, a string.
\<close>

definition messageHandler :: "messenger \<Rightarrow> win option \<Rightarrow> jsval \<Rightarrow> messenger \<times> jsval option" where
  "messageHandler m src data =
     (if src = None \<or> src \<noteq> Some (source m) then (m, None)
      else
        (case isEvent data of
           Inl e \<Rightarrow> (m, Some e)
         | Inr ev \<Rightarrow>
             (case (if ev then handleEvent m data else (m, None)) of
                (m1, Some e) \<Rightarrow> (m1, Some e)
              | (m1, None) \<Rightarrow>
                  (case isRequest data of
                     Inl e \<Rightarrow> (m1, Some e)
                   | Inr rq \<Rightarrow> (if rq then handleRequest m1 data else (m1, None))))))"

text \<open>
  A message event on the window of the messenger: the listeners run in the order of their
  registration, \<^verbatim>\<open>#messageHandler\<close> (attached by the constructor) first, then the listener
  of every pending call. An exception that leaves a listener is reported by the window
  and does not keep the later listeners from running.
\<close>

definition raised :: "jsval option \<Rightarrow> jsval list" where
  "raised x = (case x of None \<Rightarrow> [] | Some e \<Rightarrow> [e])"

definition deliver :: "messenger \<Rightarrow> win option \<Rightarrow> jsval \<Rightarrow> messenger" where
  "deliver m src data =
     (case messageHandler m src data of
        (m1, x) \<Rightarrow>
          m1\<lparr>calls := map (\<lambda>(uuid, p). (uuid, fst (callback uuid data p))) (calls m1),
             uncaught := uncaught m1 @ raised x
                         @ concat (map (\<lambda>(uuid, p). raised (snd (callback uuid data p))) (calls m1))\<rparr>)"

section \<open>Basic facts\<close>

text \<open>
  \<^verbatim>\<open>isRequest\<close> and \<^verbatim>\<open>isEvent\<close> never raise: the \<^verbatim>\<open>typeof\<close> and \<^verbatim>\<open>!= null\<close> guards
  keep the operator \<^verbatim>\<open>in\<close> away from values that are not objects, and \<^verbatim>\<open>===\<close>
  converts nothing. \<^verbatim>\<open>isResponse\<close> compares with \<^verbatim>\<open>==\<close> and raises when the
  discriminant is an object without a text. The predicates hold of plain objects only, and
  no value has two of the three shapes.
\<close>

lemma and_also_simps [simp]:
  "and_also (Inl e) b = Inl e"
  "and_also (Inr True) b = b"
  "and_also (Inr False) b = Inr False"
  by (simp_all add: and_also_def)

lemma isRequest_total: "isRequest v = Inr True \<or> isRequest v = Inr False"
  by (cases v) (simp_all add: isRequest_def and_also_def)

lemma isResponse_raises:
  "isResponse (VObj [(''id'', VStr ''u1''), (''type'', VObj [(''toString'', VNum ''1'')])])
     = Inl primitive_error"
  by (simp add: isResponse_def)

lemma isEvent_total: "isEvent v = Inr True \<or> isEvent v = Inr False"
  by (cases v) (simp_all add: isEvent_def and_also_def)

lemma isRequest_object:
  assumes "isRequest v = Inr True"
  shows "\<exists>kvs. v = VObj kvs \<and> ''id'' \<in> set (map fst kvs) \<and> ''action'' \<in> set (map fst kvs)
           \<and> get_prop v ''type'' = VStr messageTypeRequest"
  using assms
  by (cases v) (auto simp add: isRequest_def and_also_def strict_eq_str_def split: if_splits)

lemma isEvent_object:
  assumes "isEvent v = Inr True"
  shows "\<exists>kvs. v = VObj kvs \<and> ''action'' \<in> set (map fst kvs)
           \<and> get_prop v ''type'' = VStr messageTypeEvent"
  using assms
  by (cases v) (auto simp add: isEvent_def and_also_def strict_eq_str_def split: if_splits)

lemma isResponse_object:
  assumes "isResponse v = Inr True"
  shows "\<exists>kvs. v = VObj kvs \<and> ''id'' \<in> set (map fst kvs)
           \<and> loose_eq_str (get_prop v ''type'') messageTypeResponse = Inr True"
  using assms
  by (cases v) (auto simp add: isResponse_def and_also_def split: if_splits)

lemma request_not_event: "isRequest v = Inr True \<Longrightarrow> isEvent v = Inr False"
  by (cases v)
     (auto simp add: isRequest_def isEvent_def and_also_def strict_eq_str_def
        messageTypeRequest_def messageTypeEvent_def split: if_splits)

lemma request_not_response: "isRequest v = Inr True \<Longrightarrow> isResponse v = Inr False"
  by (cases v)
     (auto simp add: isRequest_def isResponse_def and_also_def strict_eq_str_def
        messageTypeRequest_def messageTypeResponse_def split: if_splits)

lemma response_not_event: "isResponse v = Inr True \<Longrightarrow> isEvent v = Inr False"
  by (cases v)
     (auto simp add: isResponse_def isEvent_def and_also_def strict_eq_str_def
        messageTypeResponse_def messageTypeEvent_def split: if_splits)

lemma response_not_request: "isResponse v = Inr True \<Longrightarrow> isRequest v = Inr False"
  by (cases v)
     (auto simp add: isResponse_def isRequest_def and_also_def strict_eq_str_def
        messageTypeResponse_def messageTypeRequest_def split: if_splits)

lemma event_not_request: "isEvent v = Inr True \<Longrightarrow> isRequest v = Inr False"
  by (cases v)
     (auto simp add: isRequest_def isEvent_def and_also_def strict_eq_str_def
        messageTypeRequest_def messageTypeEvent_def split: if_splits)

lemma calls_handleRequest [simp]: "calls (fst (handleRequest m d)) = calls m"
  by (simp add: handleRequest_def reply_def postMessage_def Let_def split: option.splits sum.splits)

lemma calls_handleEvent [simp]: "calls (fst (handleEvent m d)) = calls m"
  by (simp add: handleEvent_def Let_def split: option.splits sum.splits)

lemma calls_messageHandler [simp]: "calls (fst (messageHandler m src d)) = calls m"
proof (cases "src = None \<or> src \<noteq> Some (source m)")
  case True
  then show ?thesis by (auto simp add: messageHandler_def)
next
  case False
  obtain b where ev: "isEvent d = Inr b"
    using isEvent_total [of d] by auto
  obtain c where rq: "isRequest d = Inr c"
    using isRequest_total [of d] by auto
  obtain m1 x where he: "(if b then handleEvent m d else (m, None)) = (m1, x)"
    by (cases "if b then handleEvent m d else (m, None)")
  have m1: "calls m1 = calls m"
    using he calls_handleEvent [of m d] by (cases b) auto
  show ?thesis
  proof (cases x)
    case None
    then show ?thesis
      using False ev rq he m1 calls_handleRequest [of m1 d]
      by (cases c) (auto simp add: messageHandler_def)
  next
    case (Some e)
    then show ?thesis
      using False ev he m1 by (auto simp add: messageHandler_def)
  qed
qed

lemma awaitable_deliver:
  assumes "k < length (calls m)" and "calls m ! k = (u, p)"
  shows "awaitable (deliver m src d) k = Some (fst (callback u d p))"
proof -
  obtain m1 x where mh: "messageHandler m src d = (m1, x)"
    by (cases "messageHandler m src d")
  have "calls m1 = calls m"
    using calls_messageHandler [of m src d] mh by simp
  then show ?thesis
    using assms mh by (simp add: deliver_def awaitable_def)
qed

lemma messageHandler_response:
  "isResponse d = Inr True \<Longrightarrow> messageHandler m src d = (m, None)"
  by (simp add: messageHandler_def response_not_event response_not_request)

lemma messageHandler_foreign:
  "src \<noteq> Some (source m) \<Longrightarrow> messageHandler m src d = (m, None)"
  by (simp add: messageHandler_def)

lemma callback_response:
  assumes "isResponse r = Inr True" and "get_prop r ''id'' = VStr u"
  shows "callback u r Pending =
     (if truthy (get_prop r ''error'') then
        (case parseErrorPayload (get_prop r ''payload'') of
           Inl e \<Rightarrow> (Pending, Some e)
         | Inr err \<Rightarrow> (Rejected err, None))
      else (Fulfilled (get_prop r ''payload''), None))"
  using assms by (simp add: callback_def strict_eq_str_def)

lemma callback_other_id:
  assumes "isResponse r = Inr True" and "get_prop r ''id'' = VStr u'" and "u' \<noteq> u"
  shows "callback u r p = (p, None)"
  using assms by (auto simp add: callback_def strict_eq_str_def)

lemma callback_settled: "p \<noteq> Pending \<Longrightarrow> callback u r p = (p, None)"
  by (simp add: callback_def)

lemma callback_not_response: "isResponse r = Inr False \<Longrightarrow> callback u r p = (p, None)"
  by (simp add: callback_def)

section \<open>Requests and their responses\<close>

text \<open>
  What \<^verbatim>\<open>sendRequest\<close> posts and registers, and what the inbound dispatch does with a
  Request of the bound peer.
\<close>

lemma posted_sendRequest:
  "posted (sendRequest m u a p) = posted m @
     [VObj [(''id'', VStr u), (''type'', VStr messageTypeRequest),
            (''action'', VStr a), (''payload'', p)]]"
  by (simp add: sendRequest_def postMessage_def)

lemma calls_sendRequest: "calls (sendRequest m u a p) = calls m @ [(u, Pending)]"
  by (simp add: sendRequest_def postMessage_def)

lemma isRequest_request_message:
  "isRequest (VObj [(''id'', i), (''type'', VStr messageTypeRequest),
                    (''action'', a), (''payload'', p)]) = Inr True"
  by (simp add: isRequest_def strict_eq_str_def)

lemma isResponse_response_message:
  "isResponse (VObj [(''id'', i), (''type'', VStr messageTypeResponse),
                     (''payload'', p), (''error'', e)]) = Inr True"
  by (simp add: isResponse_def)

lemma messageHandler_request:
  assumes "isRequest d = Inr True"
  shows "messageHandler m (Some (source m)) d = handleRequest m d"
  using assms by (simp add: messageHandler_def request_not_event)

lemma deliver_request:
  assumes "isRequest d = Inr True" and "handleRequest m d = (m1, x)"
  shows "deliver m (Some (source m)) d = m1\<lparr>uncaught := uncaught m1 @ raised x\<rparr>"
proof -
  have nr: "isResponse d = Inr False"
    using assms(1) by (rule request_not_response)
  have cb: "\<And>u p. callback u d p = (p, None)"
    using nr by (rule callback_not_response)
  have "map (\<lambda>(u, p). (u, p)) (calls m1) = calls m1"
    by (induction "calls m1") auto
  then show ?thesis
    using assms by (simp add: deliver_def messageHandler_request cb raised_def)
qed

lemma parse_structured:
  "parseErrorPayload (VObj [(''message'', VStr m), (''type'', VStr t), (''data'', d)])
     = Inr (VRequestError m (VStr t) d)"
  by (simp add: parseErrorPayload_def)

lemma parse_native_error: "parseErrorPayload (VError m) = Inr (VError m)"
  by (simp add: parseErrorPayload_def)

lemma unknown_action_string:
  "unknown_action (VStr A) =
     Inr (VError (''A'' @ [char_of (0xE7::nat), char_of (0xE3::nat)] @ ''o desconhecida: '' @ A))"
  by (simp add: unknown_action_def)

lemma calls_deliver:
  "calls (deliver m src d) = map (\<lambda>(u, p). (u, fst (callback u d p))) (calls m)"
proof -
  obtain m1 x where mh: "messageHandler m src d = (m1, x)"
    by (cases "messageHandler m src d")
  have "calls m1 = calls m"
    using calls_messageHandler [of m src d] mh by simp
  then show ?thesis
    using mh by (simp add: deliver_def)
qed

lemma length_calls_deliver [simp]: "length (calls (deliver m src d)) = length (calls m)"
  by (simp add: calls_deliver)

lemma foreign_message_not_dispatched:
  assumes "src \<noteq> Some (source m)"
  shows "requestCalls (deliver m src d) = requestCalls m"
    and "eventCalls (deliver m src d) = eventCalls m"
    and "posted (deliver m src d) = posted m"
    and "requestHandlers (deliver m src d) = requestHandlers m"
    and "eventHandlers (deliver m src d) = eventHandlers m"
  using assms by (simp_all add: deliver_def messageHandler_foreign)

text \<open>
  Two pending calls with distinct ids and a Response for each: in either order of arrival
  the promise of each call is left as the Response with its own id leaves it.
\<close>

lemma responses_correlate_by_id:
  assumes "u1 \<noteq> u2"
    and "isResponse r1 = Inr True" and "get_prop r1 ''id'' = VStr u1"
    and "isResponse r2 = Inr True" and "get_prop r2 ''id'' = VStr u2"
  shows "(let m2 = sendRequest (sendRequest m u1 a1 p1) u2 a2 p2;
              k1 = length (calls m); k2 = Suc (length (calls m));
              m12 = deliver (deliver m2 s r1) s' r2;
              m21 = deliver (deliver m2 s r2) s' r1;
              out1 = (if truthy (get_prop r1 ''error'') then
                        (case parseErrorPayload (get_prop r1 ''payload'') of
                           Inl x \<Rightarrow> Pending | Inr e \<Rightarrow> Rejected e)
                      else Fulfilled (get_prop r1 ''payload''));
              out2 = (if truthy (get_prop r2 ''error'') then
                        (case parseErrorPayload (get_prop r2 ''payload'') of
                           Inl x \<Rightarrow> Pending | Inr e \<Rightarrow> Rejected e)
                      else Fulfilled (get_prop r2 ''payload''))
          in awaitable m12 k1 = Some out1 \<and> awaitable m21 k1 = Some out1
           \<and> awaitable m12 k2 = Some out2 \<and> awaitable m21 k2 = Some out2)"
proof -
  let ?m2 = "sendRequest (sendRequest m u1 a1 p1) u2 a2 p2"
  let ?k1 = "length (calls m)"
  let ?k2 = "Suc (length (calls m))"
  let ?o1 = "fst (callback u1 r1 Pending)"
  let ?o2 = "fst (callback u2 r2 Pending)"
  have c2: "calls ?m2 = calls m @ [(u1, Pending), (u2, Pending)]"
    by (simp add: calls_sendRequest)
  have k1: "?k1 < length (calls ?m2)" "calls ?m2 ! ?k1 = (u1, Pending)"
    and k2: "?k2 < length (calls ?m2)" "calls ?m2 ! ?k2 = (u2, Pending)"
    by (simp_all add: c2 nth_append)
  have o21: "callback u2 r1 p = (p, None)" for p
    using assms(2) assms(3) assms(1) by (rule callback_other_id)
  have o12: "callback u1 r2 p = (p, None)" for p
    using assms(4) assms(5) assms(1) [symmetric] by (rule callback_other_id)
  have d1: "calls (deliver ?m2 s r1) ! ?k1 = (u1, ?o1)" "calls (deliver ?m2 s r1) ! ?k2 = (u2, Pending)"
    using k1 k2 by (simp_all add: calls_deliver o21 c2 nth_append)
  have d2: "calls (deliver ?m2 s r2) ! ?k1 = (u1, Pending)" "calls (deliver ?m2 s r2) ! ?k2 = (u2, ?o2)"
    using k1 k2 by (simp_all add: calls_deliver o12 c2 nth_append)
  have l1: "?k1 < length (calls (deliver ?m2 s r1))" "?k2 < length (calls (deliver ?m2 s r1))"
    and l2: "?k1 < length (calls (deliver ?m2 s r2))" "?k2 < length (calls (deliver ?m2 s r2))"
    using k1 k2 by simp_all
  have a1: "awaitable (deliver (deliver ?m2 s r1) s' r2) ?k1 = Some ?o1"
    using awaitable_deliver [OF l1(1) d1(1)] by (simp add: o12)
  have a2: "awaitable (deliver (deliver ?m2 s r1) s' r2) ?k2 = Some ?o2"
    using awaitable_deliver [OF l1(2) d1(2)] by simp
  have b1: "awaitable (deliver (deliver ?m2 s r2) s' r1) ?k1 = Some ?o1"
    using awaitable_deliver [OF l2(1) d2(1)] by simp
  have b2: "awaitable (deliver (deliver ?m2 s r2) s' r1) ?k2 = Some ?o2"
    using awaitable_deliver [OF l2(2) d2(2)] by (simp add: o21)
  have e1: "?o1 = (if truthy (get_prop r1 ''error'') then
                        (case parseErrorPayload (get_prop r1 ''payload'') of
                           Inl x \<Rightarrow> Pending | Inr e \<Rightarrow> Rejected e)
                      else Fulfilled (get_prop r1 ''payload''))"
    by (simp add: callback_response [OF assms(2,3)] split: sum.splits)
  have e2: "?o2 = (if truthy (get_prop r2 ''error'') then
                        (case parseErrorPayload (get_prop r2 ''payload'') of
                           Inl x \<Rightarrow> Pending | Inr e \<Rightarrow> Rejected e)
                      else Fulfilled (get_prop r2 ''payload''))"
    by (simp add: callback_response [OF assms(4,5)] split: sum.splits)
  show ?thesis
    unfolding Let_def a1 a2 b1 b2 e1 [symmetric] e2 [symmetric] by simp
qed

lemmas model_defs =
  IframeMessenger_def registerRequestHandler_def registerEventsHandler_def postMessage_def
  sendRequest_def sendEvent_def awaitable_def callback_def handleEvent_def reply_def
  handleRequest_def messageHandler_def raised_def deliver_def isRequest_def isResponse_def
  isEvent_def strict_eq_str_def parseErrorPayload_def unknown_action_def unknown_error_def
  primitive_error_def
  messageTypeRequest_def messageTypeResponse_def messageTypeEvent_def Let_def

text \<open>
  A Request whose action is an object with an own \<^verbatim>\<open>toString\<close> property and no handler:
  the template literal of the unknown-action branch raises, nothing is posted, and the
  exception leaves the listener. (The Request shape of the protocol has a string action.)
\<close>

lemma unknown_action_without_text:
  "(let d = VObj [(''id'', VStr ''u1''), (''type'', VStr messageTypeRequest),
                  (''action'', VObj [(''toString'', VNum ''1'')]), (''payload'', VNull)];
        S1 = deliver (IframeMessenger 1) (Some 1) d
    in isRequest d = Inr True \<and> posted S1 = [] \<and> uncaught S1 = [primitive_error])"
  by (simp add: model_defs)

section \<open>Claims\<close>

text \<open>
  Throughout, \<open>R\<close> is the messenger of the requester and \<open>S\<close> the messenger of the
  responder. The Request that \<^verbatim>\<open>sendRequest\<close> posted is the last message of \<open>posted\<close>;
  it reaches \<open>S\<close> from the peer \<open>S\<close> is bound to, and the Response that \<open>S\<close> posted is
  delivered on the window of \<open>R\<close>.
\<close>

text \<open>
  C1. For every action \<open>A\<close> with a registered request handler \<open>h\<close> and every payload \<open>P\<close>
  on which \<open>h\<close> returns \<open>v\<close>: the Request for \<open>A\<close> with \<open>P\<close> makes the dispatch invoke
  \<open>h\<close> exactly once, with \<open>P\<close>; one Response is posted, whose payload is \<open>v\<close>; and the
  awaitable of the caller's \<^verbatim>\<open>sendRequest(A, P)\<close> fulfils with \<open>v\<close>.
\<close>

theorem request_roundtrip:
  assumes "requestHandlers S A = Some h" and "h P = Inr v"
  shows "(let R1 = sendRequest R uuid A P;
              S1 = deliver S (Some (source S)) (last (posted R1));
              R2 = deliver R1 src (last (posted S1))
          in requestCalls S1 = requestCalls S @ [(A, P)]
           \<and> posted S1 = posted S @
               [VObj [(''id'', VStr uuid), (''type'', VStr messageTypeResponse),
                      (''payload'', v), (''error'', VUndefined)]]
           \<and> awaitable R2 (length (calls R)) = Some (Fulfilled v))"
proof -
  let ?req = "VObj [(''id'', VStr uuid), (''type'', VStr messageTypeRequest),
                    (''action'', VStr A), (''payload'', P)]"
  let ?resp = "VObj [(''id'', VStr uuid), (''type'', VStr messageTypeResponse),
                     (''payload'', v), (''error'', VUndefined)]"
  let ?R1 = "sendRequest R uuid A P"
  have req: "last (posted ?R1) = ?req"
    by (simp add: posted_sendRequest)
  have hr: "handleRequest S ?req =
      (S\<lparr>requestCalls := requestCalls S @ [(A, P)], posted := posted S @ [?resp]\<rparr>, None)"
    using assms by (simp add: handleRequest_def reply_def postMessage_def)
  have S1: "deliver S (Some (source S)) ?req =
      S\<lparr>requestCalls := requestCalls S @ [(A, P)], posted := posted S @ [?resp]\<rparr>"
    using deliver_request [OF isRequest_request_message hr] by (simp add: raised_def)
  have k: "length (calls R) < length (calls ?R1)" "calls ?R1 ! length (calls R) = (uuid, Pending)"
    by (simp_all add: calls_sendRequest)
  have cb: "callback uuid ?resp Pending = (Fulfilled v, None)"
    by (simp add: callback_response isResponse_response_message)
  have "awaitable (deliver ?R1 src ?resp) (length (calls R)) = Some (Fulfilled v)"
    using awaitable_deliver [OF k] cb by simp
  then show ?thesis
    by (simp add: req S1 Let_def)
qed

theorem request_roundtrip_witness:
  "requestHandlers (registerRequestHandler (IframeMessenger 1) ''echo'' (\<lambda>p. Inr (VArr [p])))
     ''echo'' = Some (\<lambda>p. Inr (VArr [p]))
   \<and> (let S = registerRequestHandler (IframeMessenger 1) ''echo'' (\<lambda>p. Inr (VArr [p]));
           R1 = sendRequest (IframeMessenger 2) ''u1'' ''echo'' (VStr ''hi'');
           S1 = deliver S (Some 1) (last (posted R1));
           R2 = deliver R1 (Some 2) (last (posted S1))
       in requestCalls S1 = [(''echo'', VStr ''hi'')]
        \<and> posted S1 =
            [VObj [(''id'', VStr ''u1''), (''type'', VStr messageTypeResponse),
                   (''payload'', VArr [VStr ''hi'']), (''error'', VUndefined)]]
        \<and> awaitable R2 0 = Some (Fulfilled (VArr [VStr ''hi''])))"
  using request_roundtrip [of "registerRequestHandler (IframeMessenger 1) ''echo'' (\<lambda>p. Inr (VArr [p]))"
      "''echo''" "\<lambda>p. Inr (VArr [p])" "VStr ''hi''" "VArr [VStr ''hi'']"
      "IframeMessenger 2" "''u1''" "Some 2"]
  by (simp add: registerRequestHandler_def IframeMessenger_def)

text \<open>
  C2. For a \<^verbatim>\<open>RequestError\<close> with message \<open>msg\<close>, a string type \<open>ty\<close> and any data
  \<open>dat\<close>, decoding the encoded error gives back an error with the same three fields; and
  when a request handler throws it, the Response carries the three fields with the error
  flag \<^verbatim>\<open>true\<close>, and the requester's awaitable rejects with an error exposing the same
  message, type and data.
\<close>

theorem structured_error_roundtrip:
  "parseErrorPayload (toErrorPayload (VRequestError msg (VStr ty) dat))
     = Inr (VRequestError msg (VStr ty) dat)
   \<and> (requestHandlers S A = Some h \<longrightarrow> h P = Inl (VRequestError msg (VStr ty) dat) \<longrightarrow>
        (let R1 = sendRequest R uuid A P;
             S1 = deliver S (Some (source S)) (last (posted R1));
             R2 = deliver R1 src (last (posted S1))
         in posted S1 = posted S @
              [VObj [(''id'', VStr uuid), (''type'', VStr messageTypeResponse),
                     (''payload'', VObj [(''message'', VStr msg), (''type'', VStr ty),
                                         (''data'', dat)]),
                     (''error'', VBool True)]]
          \<and> awaitable R2 (length (calls R)) = Some (Rejected (VRequestError msg (VStr ty) dat))
          \<and> (\<forall>e. awaitable R2 (length (calls R)) = Some (Rejected e) \<longrightarrow>
                 get_prop e ''message'' = VStr msg \<and> get_prop e ''type'' = VStr ty
               \<and> get_prop e ''data'' = dat)))"
proof (intro conjI impI)
  show "parseErrorPayload (toErrorPayload (VRequestError msg (VStr ty) dat))
     = Inr (VRequestError msg (VStr ty) dat)"
    by (simp add: parse_structured)
next
  assume reg: "requestHandlers S A = Some h" and thr: "h P = Inl (VRequestError msg (VStr ty) dat)"
  let ?req = "VObj [(''id'', VStr uuid), (''type'', VStr messageTypeRequest),
                    (''action'', VStr A), (''payload'', P)]"
  let ?pl = "VObj [(''message'', VStr msg), (''type'', VStr ty), (''data'', dat)]"
  let ?resp = "VObj [(''id'', VStr uuid), (''type'', VStr messageTypeResponse),
                     (''payload'', ?pl), (''error'', VBool True)]"
  let ?R1 = "sendRequest R uuid A P"
  have req: "last (posted ?R1) = ?req"
    by (simp add: posted_sendRequest)
  have hr: "handleRequest S ?req =
      (S\<lparr>requestCalls := requestCalls S @ [(A, P)], posted := posted S @ [?resp]\<rparr>, None)"
    using reg thr by (simp add: handleRequest_def reply_def postMessage_def)
  have S1: "deliver S (Some (source S)) ?req =
      S\<lparr>requestCalls := requestCalls S @ [(A, P)], posted := posted S @ [?resp]\<rparr>"
    using deliver_request [OF isRequest_request_message hr] by (simp add: raised_def)
  have k: "length (calls R) < length (calls ?R1)" "calls ?R1 ! length (calls R) = (uuid, Pending)"
    by (simp_all add: calls_sendRequest)
  have cb: "callback uuid ?resp Pending = (Rejected (VRequestError msg (VStr ty) dat), None)"
    by (simp add: callback_response isResponse_response_message parse_structured)
  have "awaitable (deliver ?R1 src ?resp) (length (calls R))
          = Some (Rejected (VRequestError msg (VStr ty) dat))"
    using awaitable_deliver [OF k] cb by simp
  then show "(let R1 = sendRequest R uuid A P;
             S1 = deliver S (Some (source S)) (last (posted R1));
             R2 = deliver R1 src (last (posted S1))
         in posted S1 = posted S @
              [VObj [(''id'', VStr uuid), (''type'', VStr messageTypeResponse),
                     (''payload'', VObj [(''message'', VStr msg), (''type'', VStr ty),
                                         (''data'', dat)]),
                     (''error'', VBool True)]]
          \<and> awaitable R2 (length (calls R)) = Some (Rejected (VRequestError msg (VStr ty) dat))
          \<and> (\<forall>e. awaitable R2 (length (calls R)) = Some (Rejected e) \<longrightarrow>
                 get_prop e ''message'' = VStr msg \<and> get_prop e ''type'' = VStr ty
               \<and> get_prop e ''data'' = dat))"
    by (simp add: req S1 Let_def)
qed

theorem structured_error_roundtrip_witness:
  "(let h = (\<lambda>p. Inl (VRequestError ''too large'' (VStr ''validation'') (VObj [(''max'', VNum ''5'')])));
        S = registerRequestHandler (IframeMessenger 1) ''save'' h;
        R1 = sendRequest (IframeMessenger 2) ''u1'' ''save'' (VNum ''9'');
        S1 = deliver S (Some 1) (last (posted R1));
        R2 = deliver R1 (Some 2) (last (posted S1))
    in requestHandlers S ''save'' = Some h
     \<and> awaitable R2 0 =
         Some (Rejected (VRequestError ''too large'' (VStr ''validation'') (VObj [(''max'', VNum ''5'')]))))"
  using structured_error_roundtrip [of "''too large''" "''validation''" "VObj [(''max'', VNum ''5'')]"
      "registerRequestHandler (IframeMessenger 1) ''save''
         (\<lambda>p. Inl (VRequestError ''too large'' (VStr ''validation'') (VObj [(''max'', VNum ''5'')])))"
      "''save''"
      "\<lambda>p. Inl (VRequestError ''too large'' (VStr ''validation'') (VObj [(''max'', VNum ''5'')]))"
      "VNum ''9''" "IframeMessenger 2" "''u1''" "Some 2"]
  by (simp add: model_defs)


text \<open>
  C3. The claim: an error Response whose payload is neither a native error nor an object
  with a string message, a string type and a data key makes the pending awaitable reject
  with the generic unknown error. On the code, \<^verbatim>\<open>parseErrorPayload\<close> throws that error
  while the argument of \<^verbatim>\<open>reject\<close> is being computed, inside the listener and outside
  the executor of the promise: the exception leaves the listener, \<^verbatim>\<open>reject\<close> is never
  called, and the promise stays pending. The theorem runs the listener on such a Response.
\<close>

theorem undecodable_error_response_leaves_call_pending:
  "(let m = sendRequest (IframeMessenger 2) ''u1'' ''save'' VNull;
        r = VObj [(''id'', VStr ''u1''), (''type'', VStr messageTypeResponse),
                  (''payload'', VStr ''boom''), (''error'', VBool True)];
        m1 = deliver m (Some 2) r
    in isResponse r = Inr True
     \<and> parseErrorPayload (get_prop r ''payload'') = Inl unknown_error
     \<and> awaitable m1 0 = Some Pending
     \<and> uncaught m1 = [unknown_error])"
  by (simp add: model_defs)

text \<open>
  C4. For every Request of the bound peer that names an action, a string \<open>A\<close>, without a
  registered request handler: the dispatch posts exactly one Response, with the error
  flag \<^verbatim>\<open>true\<close> and the unknown-action error as payload; no request or event handler is
  invoked; no exception leaves a listener; and a pending call that waits for the id of
  the Request rejects, with that error, when the Response is delivered.
\<close>

theorem unknown_action_rejected:
  assumes "isRequest d = Inr True"
    and "get_prop d ''action'' = VStr A"
    and "requestHandlers S A = None"
  shows "(let S1 = deliver S (Some (source S)) d;
              err = VError (''A'' @ [char_of (0xE7::nat), char_of (0xE3::nat)]
                            @ ''o desconhecida: '' @ A);
              resp = VObj [(''id'', get_prop d ''id''), (''type'', VStr messageTypeResponse),
                           (''payload'', err), (''error'', VBool True)]
          in posted S1 = posted S @ [resp]
           \<and> requestCalls S1 = requestCalls S
           \<and> eventCalls S1 = eventCalls S
           \<and> uncaught S1 = uncaught S
           \<and> (\<forall>R k uuid src. k < length (calls R) \<longrightarrow> calls R ! k = (uuid, Pending) \<longrightarrow>
                  get_prop d ''id'' = VStr uuid \<longrightarrow>
                  awaitable (deliver R src resp) k = Some (Rejected err)))"
proof -
  let ?err = "VError (''A'' @ [char_of (0xE7::nat), char_of (0xE3::nat)]
                      @ ''o desconhecida: '' @ A)"
  let ?resp = "VObj [(''id'', get_prop d ''id''), (''type'', VStr messageTypeResponse),
                     (''payload'', ?err), (''error'', VBool True)]"
  have hr: "handleRequest S d = (S\<lparr>posted := posted S @ [?resp]\<rparr>, None)"
    using assms(2,3)
    by (simp add: handleRequest_def unknown_action_string reply_def postMessage_def)
  have S1: "deliver S (Some (source S)) d = S\<lparr>posted := posted S @ [?resp]\<rparr>"
    using deliver_request [OF assms(1) hr] by (simp add: raised_def)
  have rej: "awaitable (deliver R src ?resp) k = Some (Rejected ?err)"
    if "k < length (calls R)" and "calls R ! k = (uuid, Pending)"
      and "get_prop d ''id'' = VStr uuid" for R k uuid src
  proof -
    have "callback uuid ?resp Pending = (Rejected ?err, None)"
      using that(3)
      by (simp add: callback_response isResponse_response_message parse_native_error)
    then show ?thesis
      using awaitable_deliver [OF that(1) that(2)] by simp
  qed
  show ?thesis
    unfolding Let_def S1 using rej by simp
qed

theorem unknown_action_rejected_witness:
  "(let R1 = sendRequest (IframeMessenger 2) ''u1'' ''nope'' VNull;
        d = last (posted R1);
        S = IframeMessenger 1;
        S1 = deliver S (Some 1) d;
        R2 = deliver R1 (Some 2) (last (posted S1))
    in isRequest d = Inr True
     \<and> get_prop d ''action'' = VStr ''nope''
     \<and> requestHandlers S ''nope'' = None
     \<and> length (posted S1) = 1
     \<and> get_prop (last (posted S1)) ''error'' = VBool True
     \<and> requestCalls S1 = [] \<and> eventCalls S1 = [] \<and> uncaught S1 = []
     \<and> awaitable R2 0 =
         Some (Rejected (VError (''A'' @ [char_of (0xE7::nat), char_of (0xE3::nat)]
                                 @ ''o desconhecida: nope''))))"
  using unknown_action_rejected [of "last (posted (sendRequest (IframeMessenger 2) ''u1'' ''nope'' VNull))"
      "''nope''" "IframeMessenger 1"]
  by (simp add: model_defs)

text \<open>
  C5. The claim: when the handler of an inbound Event throws, the messenger catches and
  logs the failure, which never leaves the inbound dispatch. On the code,
  \<^verbatim>\<open>#handleEvent\<close> calls the handler bare and \<^verbatim>\<open>#messageHandler\<close> calls
  \<^verbatim>\<open>#handleEvent\<close> bare, so the exception leaves the listener; the request path, in
  contrast, catches what its handler throws. The theorem runs the dispatch on an Event
  whose handler throws.
\<close>

theorem event_handler_exception_escapes:
  "(let m = registerEventsHandler (IframeMessenger 1) ''tick'' (\<lambda>p. Inl (VError ''boom''));
        ev = VObj [(''type'', VStr messageTypeEvent), (''action'', VStr ''tick''),
                   (''payload'', VNum ''1'')]
    in isEvent ev = Inr True
     \<and> snd (handleEvent m ev) = Some (VError ''boom'')
     \<and> snd (messageHandler m (Some 1) ev) = Some (VError ''boom'')
     \<and> uncaught (deliver m (Some 1) ev) = [VError ''boom''])"
  by (simp add: model_defs)

text \<open>
  C6, as amended. For every Request of the bound peer whose registered handler succeeds,
  the one Response posted has the handler's return value as payload and an error field
  that is present with the value \<^verbatim>\<open>undefined\<close>: the success branch calls \<open>reply\<close> with
  the payload alone. The field is falsy, which is what the requester tests.
\<close>

theorem success_response_error_field:
  assumes "isRequest d = Inr True"
    and "registry_get (requestHandlers S) (get_prop d ''action'') = Some (a, h)"
    and "h (get_prop d ''payload'') = Inr v"
  shows "(let S1 = deliver S (Some (source S)) d
          in posted S1 = posted S @
               [VObj [(''id'', get_prop d ''id''), (''type'', VStr messageTypeResponse),
                      (''payload'', v), (''error'', VUndefined)]]
           \<and> js_in ''error'' (last (posted S1)) = Inr True
           \<and> get_prop (last (posted S1)) ''error'' = VUndefined
           \<and> \<not> truthy (get_prop (last (posted S1)) ''error''))"
proof -
  let ?resp = "VObj [(''id'', get_prop d ''id''), (''type'', VStr messageTypeResponse),
                     (''payload'', v), (''error'', VUndefined)]"
  have hr: "handleRequest S d =
      (S\<lparr>requestCalls := requestCalls S @ [(a, get_prop d ''payload'')],
         posted := posted S @ [?resp]\<rparr>, None)"
    using assms(2,3) by (simp add: handleRequest_def reply_def postMessage_def)
  show ?thesis
    using deliver_request [OF assms(1) hr] by (simp add: raised_def Let_def)
qed

theorem success_response_error_field_witness:
  "(let S = registerRequestHandler (IframeMessenger 1) ''echo'' (\<lambda>p. Inr p);
        d = VObj [(''id'', VStr ''u1''), (''type'', VStr messageTypeRequest),
                  (''action'', VStr ''echo''), (''payload'', VNum ''7'')];
        S1 = deliver S (Some 1) d
    in isRequest d = Inr True
     \<and> registry_get (requestHandlers S) (get_prop d ''action'') = Some (''echo'', \<lambda>p. Inr p)
     \<and> posted S1 =
          [VObj [(''id'', VStr ''u1''), (''type'', VStr messageTypeResponse),
                 (''payload'', VNum ''7''), (''error'', VUndefined)]])"
  using success_response_error_field [of
      "VObj [(''id'', VStr ''u1''), (''type'', VStr messageTypeRequest),
             (''action'', VStr ''echo''), (''payload'', VNum ''7'')]"
      "registerRequestHandler (IframeMessenger 1) ''echo'' (\<lambda>p. Inr p)"
      "''echo''" "\<lambda>p. Inr p" "VNum ''7''"]
  by (simp add: model_defs)

text \<open>
  The claim C6 as stated, that the error field of such a Response is the boolean
  \<^verbatim>\<open>false\<close>, fails on an echo handler.
\<close>

theorem success_response_error_field_counterexample:
  "\<not> (get_prop
         (last (posted (deliver
            (registerRequestHandler (IframeMessenger 1) ''echo'' (\<lambda>p. Inr p))
            (Some 1)
            (VObj [(''id'', VStr ''u1''), (''type'', VStr messageTypeRequest),
                   (''action'', VStr ''echo''), (''payload'', VNum ''7'')]))))
         ''error'' = VBool False)"
  by (simp add: model_defs)

text \<open>
  C7. The claim: a message whose source is not the bound peer is ignored entirely, and in
  particular settles no pending call. On the code only \<^verbatim>\<open>#messageHandler\<close> compares the
  source of the message with the bound peer (lemma \<open>foreign_message_not_dispatched\<close>);
  the listener of a pending call does not look at the source. The theorem delivers a
  Response with the id of a pending call from a window that is not the peer, and from no
  window at all: the call fulfils with the foreign payload.
\<close>

theorem foreign_response_settles_call:
  "(let m = sendRequest (IframeMessenger 2) ''u1'' ''save'' VNull;
        r = VObj [(''id'', VStr ''u1''), (''type'', VStr messageTypeResponse),
                  (''payload'', VNum ''42''), (''error'', VBool False)]
    in source m = 2
     \<and> awaitable m 0 = Some Pending
     \<and> awaitable (deliver m (Some 3) r) 0 = Some (Fulfilled (VNum ''42''))
     \<and> awaitable (deliver m None r) 0 = Some (Fulfilled (VNum ''42'')))"
  by (simp add: model_defs)

text \<open>
  C8. The claim: two calls of \<^verbatim>\<open>sendRequest\<close> with distinct ids that each receive a
  matching Response each settle with the payload of their own Response, in either order of
  arrival. On the code the correlation is by id and does not depend on the order (lemma
  \<open>responses_correlate_by_id\<close>), but an answered call need not settle: when the Response
  of the first call is an error Response whose payload cannot be decoded, the listener
  raises as in C3 and that call stays pending in both orders, while the second call
  fulfils with its own payload.
\<close>

theorem answered_call_left_pending:
  "(let m2 = sendRequest (sendRequest (IframeMessenger 2) ''u1'' ''a'' VNull) ''u2'' ''b'' VNull;
        r1 = VObj [(''id'', VStr ''u1''), (''type'', VStr messageTypeResponse),
                   (''payload'', VStr ''boom''), (''error'', VBool True)];
        r2 = VObj [(''id'', VStr ''u2''), (''type'', VStr messageTypeResponse),
                   (''payload'', VStr ''two''), (''error'', VBool False)];
        m12 = deliver (deliver m2 (Some 2) r1) (Some 2) r2;
        m21 = deliver (deliver m2 (Some 2) r2) (Some 2) r1
    in isResponse r1 = Inr True \<and> get_prop r1 ''id'' = VStr ''u1''
     \<and> isResponse r2 = Inr True \<and> get_prop r2 ''id'' = VStr ''u2''
     \<and> awaitable m2 0 = Some Pending \<and> awaitable m2 1 = Some Pending
     \<and> awaitable m12 0 = Some Pending \<and> awaitable m21 0 = Some Pending
     \<and> awaitable m12 1 = Some (Fulfilled (VStr ''two''))
     \<and> awaitable m21 1 = Some (Fulfilled (VStr ''two'')))"
  by (simp add: model_defs)

text \<open>
  C9. The claim: each of the three shape predicates returns a boolean, never throws, and
  returns false for a value that has not the shape of its message variant. \<^verbatim>\<open>isRequest\<close>
  and \<^verbatim>\<open>isEvent\<close> do (lemmas \<open>isRequest_total\<close>, \<open>isEvent_total\<close>). \<^verbatim>\<open>isResponse\<close>
  compares the discriminant with \<^verbatim>\<open>==\<close> where the other two use \<^verbatim>\<open>===\<close>, and so
  accepts an object whose \<^verbatim>\<open>type\<close> is not the string constant but an array holding it;
  the same comparison raises on a discriminant without a text (lemma
  \<open>isResponse_raises\<close>).
\<close>

theorem isResponse_accepts_array_discriminant:
  "isResponse (VObj [(''id'', VStr ''u1''), (''type'', VArr [VStr ''IFRAME-MESSAGE-RESPONSE''])])
     = Inr True
   \<and> isRequest (VObj [(''id'', VStr ''u1''), (''action'', VStr ''a''),
                      (''type'', VArr [VStr ''IFRAME-MESSAGE-REQUEST''])]) = Inr False
   \<and> isEvent (VObj [(''action'', VStr ''a''),
                    (''type'', VArr [VStr ''IFRAME-MESSAGE-EVENT''])]) = Inr False"
  by (simp add: model_defs)

text \<open>
  C10. For every Response whose id is that of a pending call: when the error field of the
  Response is falsy (absent and \<^verbatim>\<open>undefined\<close> included) the awaitable fulfils with the
  payload of the Response; the awaitable rejects only when the error field is truthy; and
  \<^verbatim>\<open>isResponse\<close> holds of a message that has neither an error nor a payload field.
\<close>

theorem response_settles_by_truthiness:
  assumes "k < length (calls m)" and "calls m ! k = (uuid, Pending)"
    and "isResponse r = Inr True" and "get_prop r ''id'' = VStr uuid"
  shows "(\<not> truthy (get_prop r ''error'') \<longrightarrow>
            awaitable (deliver m src r) k = Some (Fulfilled (get_prop r ''payload'')))
       \<and> (\<forall>e. awaitable (deliver m src r) k = Some (Rejected e) \<longrightarrow>
            truthy (get_prop r ''error''))
       \<and> isResponse (VObj [(''id'', VStr uuid), (''type'', VStr messageTypeResponse)]) = Inr True"
proof -
  have aw: "awaitable (deliver m src r) k = Some (fst (callback uuid r Pending))"
    using assms(1,2) by (rule awaitable_deliver)
  show ?thesis
    unfolding aw callback_response [OF assms(3,4)]
    by (auto simp add: isResponse_def split: sum.splits)
qed

theorem response_settles_by_truthiness_witness:
  "(let m = sendRequest (IframeMessenger 2) ''u1'' ''echo'' VNull;
        r = VObj [(''id'', VStr ''u1''), (''type'', VStr messageTypeResponse)]
    in 0 < length (calls m) \<and> calls m ! 0 = (''u1'', Pending)
     \<and> isResponse r = Inr True \<and> get_prop r ''id'' = VStr ''u1''
     \<and> \<not> truthy (get_prop r ''error'')
     \<and> awaitable (deliver m (Some 2) r) 0 = Some (Fulfilled VUndefined))"
  using response_settles_by_truthiness [of 0 "sendRequest (IframeMessenger 2) ''u1'' ''echo'' VNull"
      "''u1''" "VObj [(''id'', VStr ''u1''), (''type'', VStr messageTypeResponse)]" "Some 2"]
  by (simp add: model_defs)

end
